theory Spec2Isabelle
  imports Complex_Main
begin

section \<open>Python values and errors\<close>

text \<open>
  The exceptions the embedded routines can raise. A routine that may raise returns
  \<open>py_error + 'a\<close>, with \<open>Inl\<close> for the exception.
\<close>

datatype py_error =
    NameError string
  | UnboundLocalError string
  | ValueError string
  | IndexError
  | TypeError string
  | AttributeError string
  | SyntaxError string
  | ZeroDivisionError
  | EOFError

definition then_do :: "py_error + 'a \<Rightarrow> ('a \<Rightarrow> py_error + 'b) \<Rightarrow> py_error + 'b" where
  "then_do r f = (case r of Inl e \<Rightarrow> Inl e | Inr v \<Rightarrow> f v)"

text \<open>
  A numpy float64 that results from a division of two integer counts: either the quotient
  or \<open>nan\<close> (numpy's \<open>0 / 0\<close>, which warns and does not raise). Rounding is not modelled:
  the quotient is the exact real number.
\<close>

datatype np_float = NaN | Fin real

section \<open>utils.py: calc_iou_per_class\<close>

text \<open>
  An example of \<open>pred_x\<close> has shape (C, H, W). It is given here as the list of its
  H * W pixels, each pixel the list of its C channel values, so that \<open>np.argmax(_, 0)\<close>
  is the arg-max of every pixel. A target is the flat list of its pixel values.
\<close>

fun argmax_from :: "nat \<Rightarrow> real \<Rightarrow> nat \<Rightarrow> real list \<Rightarrow> nat" where
  "argmax_from best bv i [] = best"
| "argmax_from best bv i (x # xs) =
     (if bv < x then argmax_from i x (Suc i) xs else argmax_from best bv (Suc i) xs)"

definition np_argmax :: "real list \<Rightarrow> py_error + int" where
  \<comment> \<open>the first index of the maximum; numpy raises on an empty sequence\<close>
  "np_argmax xs =
     (case xs of
        [] \<Rightarrow> Inl (ValueError ''attempt to get argmax of an empty sequence'')
      | x # r \<Rightarrow> Inr (int (argmax_from 0 x 1 r)))"

fun np_argmax0 :: "real list list \<Rightarrow> py_error + int list" where
  "np_argmax0 [] = Inr []"
| "np_argmax0 (px # pxs) =
     then_do (np_argmax px) (\<lambda>c. then_do (np_argmax0 pxs) (\<lambda>cs. Inr (c # cs)))"

definition astype_int :: "real list \<Rightarrow> int list" where
  \<comment> \<open>\<open>ndarray.astype(int)\<close> truncates towards zero\<close>
  "astype_int xs = map (\<lambda>x. if 0 \<le> x then \<lfloor>x\<rfloor> else \<lceil>x\<rceil>) xs"

definition np_broadcast2 ::
  "(int \<Rightarrow> int \<Rightarrow> bool) \<Rightarrow> int list \<Rightarrow> int list \<Rightarrow> py_error + bool list" where
  \<comment> \<open>an elementwise operation on two flat arrays: equal sizes, or one of size 1\<close>
  "np_broadcast2 f a b =
     (if length a = length b then Inr (map2 f a b)
      else if length a = 1 then Inr (map (f (hd a)) b)
      else if length b = 1 then Inr (map (\<lambda>x. f x (hd b)) a)
      else Inl (ValueError ''operands could not be broadcast together''))"

definition truthy :: "int \<Rightarrow> bool" where
  \<comment> \<open>numpy's logical operations read every non-zero entry as true\<close>
  "truthy x = (x \<noteq> 0)"

definition both :: "int \<Rightarrow> int \<Rightarrow> bool" where
  "both x y = (truthy x \<and> truthy y)"

definition either :: "int \<Rightarrow> int \<Rightarrow> bool" where
  "either x y = (truthy x \<or> truthy y)"

definition np_logical_and :: "int list \<Rightarrow> int list \<Rightarrow> py_error + bool list" where
  "np_logical_and = np_broadcast2 both"

definition np_logical_or :: "int list \<Rightarrow> int list \<Rightarrow> py_error + bool list" where
  "np_logical_or = np_broadcast2 either"

definition np_sum :: "bool list \<Rightarrow> nat" where
  "np_sum bs = length (filter (\<lambda>b. b) bs)"

definition np_true_divide :: "nat \<Rightarrow> nat \<Rightarrow> np_float" where
  \<comment> \<open>only called with a numerator not above the denominator, so never infinite\<close>
  "np_true_divide a b = (if b = 0 then NaN else Fin (real a / real b))"

fun np_mean_acc :: "np_float list \<Rightarrow> real \<Rightarrow> real option" where
  "np_mean_acc [] s = Some s"
| "np_mean_acc (NaN # xs) s = None"
| "np_mean_acc (Fin x # xs) s = np_mean_acc xs (s + x)"

definition np_mean :: "np_float list \<Rightarrow> np_float" where
  "np_mean xs =
     (if xs = [] then NaN
      else case np_mean_acc xs 0 of None \<Rightarrow> NaN | Some s \<Rightarrow> Fin (s / real (length xs)))"

definition example_iou :: "real list list \<Rightarrow> real list \<Rightarrow> py_error + np_float" where
  \<comment> \<open>the body of the loop of \<open>calc_iou_per_class\<close>, up to the value of \<open>iou\<close>\<close>
  "example_iou pred_x_i targets_i =
     then_do (np_argmax0 pred_x_i) (\<lambda>pred.
       let target = astype_int targets_i in
       then_do (np_logical_and target pred) (\<lambda>inter.
       then_do (np_logical_or target pred) (\<lambda>union.
         Inr (np_true_divide (np_sum inter) (np_sum union)))))"

fun iou_loop ::
  "real list list list \<Rightarrow> real list list \<Rightarrow> np_float list \<Rightarrow> np_float option
     \<Rightarrow> py_error + np_float option" where
  "iou_loop [] ts iou_per_class mean_iou_per_class = Inr mean_iou_per_class"
| "iou_loop (p # ps) [] iou_per_class mean_iou_per_class = Inl IndexError"
| "iou_loop (p # ps) (t # ts) iou_per_class mean_iou_per_class =
     then_do (example_iou p t) (\<lambda>iou.
       let iou_per_class' = iou_per_class @ [iou] in
       iou_loop ps ts iou_per_class' (Some (np_mean iou_per_class')))"

definition calc_iou_per_class ::
  "real list list list \<Rightarrow> real list list \<Rightarrow> py_error + np_float" where
  \<comment> \<open>\<open>mean_iou_per_class\<close> is bound only inside the loop\<close>
  "calc_iou_per_class pred_x targets =
     then_do (iou_loop pred_x targets [] None) (\<lambda>m.
       case m of
         None \<Rightarrow> Inl (UnboundLocalError ''mean_iou_per_class'')
       | Some v \<Rightarrow> Inr v)"

section \<open>Python strings, lists and paths\<close>

fun py_index :: "'a list \<Rightarrow> nat \<Rightarrow> py_error + 'a" where
  \<comment> \<open>\<open>xs[i]\<close> for a non-negative \<open>i\<close>\<close>
  "py_index [] i = Inl IndexError"
| "py_index (x # xs) 0 = Inr x"
| "py_index (x # xs) (Suc i) = py_index xs i"

fun map_err :: "('a \<Rightarrow> py_error + 'b) \<Rightarrow> 'a list \<Rightarrow> py_error + 'b list" where
  \<comment> \<open>a list comprehension whose element expression may raise\<close>
  "map_err f [] = Inr []"
| "map_err f (x # xs) = then_do (f x) (\<lambda>y. then_do (map_err f xs) (\<lambda>ys. Inr (y # ys)))"

fun py_split :: "char \<Rightarrow> string \<Rightarrow> string list" where
  \<comment> \<open>\<open>s.split(sep)\<close> for a separator of one character\<close>
  "py_split sep [] = [[]]"
| "py_split sep (c # cs) =
     (if c = sep then [] # py_split sep cs
      else case py_split sep cs of
             [] \<Rightarrow> [[c]]
           | w # ws \<Rightarrow> (c # w) # ws)"

definition splitext_ext :: "string \<Rightarrow> string" where
  \<comment> \<open>\<open>os.path.splitext(p)[-1]\<close>: from the last dot of the last path component on,
      unless only dots come before it there\<close>
  "splitext_ext p =
     (let name = rev (takeWhile (\<lambda>c. c \<noteq> CHR ''/'') (rev p));
          ext_rev = takeWhile (\<lambda>c. c \<noteq> CHR ''.'') (rev name);
          stem = take (length name - Suc (length ext_rev)) name
      in if CHR ''.'' \<in> set name \<and> (\<exists>c \<in> set stem. c \<noteq> CHR ''.'')
         then CHR ''.'' # rev ext_rev else [])"

definition os_path_join2 :: "string \<Rightarrow> string \<Rightarrow> string" where
  "os_path_join2 path b =
     (if b \<noteq> [] \<and> hd b = CHR ''/'' then b
      else if path = [] \<or> last path = CHR ''/'' then path @ b
      else path @ ''/'' @ b)"

definition os_path_join :: "string \<Rightarrow> string list \<Rightarrow> string" where
  "os_path_join a ps = foldl os_path_join2 a ps"

definition digit_char :: "nat \<Rightarrow> char" where
  \<comment> \<open>only called with \<open>d < 10\<close>\<close>
  "digit_char d = ''0123456789'' ! d"

fun nat_digits :: "nat \<Rightarrow> string" where
  "nat_digits n = (if n < 10 then [digit_char n] else nat_digits (n div 10) @ [digit_char (n mod 10)])"

declare nat_digits.simps [simp del]

definition py_str_int :: "int \<Rightarrow> string" where
  \<comment> \<open>\<open>str(i)\<close>, as an f-string or \<open>format\<close> prints an int\<close>
  "py_str_int i = (if i < 0 then CHR ''-'' # nat_digits (nat (- i)) else nat_digits (nat i))"

definition digit_val :: "char \<Rightarrow> nat option" where
  "digit_val c =
     map_of [(CHR ''0'', 0), (CHR ''1'', 1), (CHR ''2'', 2), (CHR ''3'', 3), (CHR ''4'', 4),
             (CHR ''5'', 5), (CHR ''6'', 6), (CHR ''7'', 7), (CHR ''8'', 8), (CHR ''9'', 9)] c"

definition py_isspace :: "char \<Rightarrow> bool" where
  \<comment> \<open>the ASCII characters that \<open>int\<close> strips: codes 9 to 13 and 28 to 32\<close>
  "py_isspace c =
     (c \<in> set [CHR 0x09, CHR 0x0A, CHR 0x0B, CHR 0x0C, CHR 0x0D,
                CHR 0x1C, CHR 0x1D, CHR 0x1E, CHR 0x1F, CHR 0x20])"

definition py_strip :: "string \<Rightarrow> string" where
  "py_strip s = rev (dropWhile py_isspace (rev (dropWhile py_isspace s)))"

fun parse_digits :: "nat \<Rightarrow> bool \<Rightarrow> string \<Rightarrow> nat option" where
  \<comment> \<open>decimal digits, single underscores allowed between two digits\<close>
  "parse_digits acc prev_digit [] = (if prev_digit then Some acc else None)"
| "parse_digits acc prev_digit (c # cs) =
     (if c = CHR ''_'' then (if prev_digit \<and> cs \<noteq> [] then parse_digits acc False cs else None)
      else case digit_val c of
             None \<Rightarrow> None
           | Some d \<Rightarrow> parse_digits (10 * acc + d) True cs)"

definition py_int :: "string \<Rightarrow> py_error + int" where
  \<comment> \<open>\<open>int(s)\<close> on an ASCII string\<close>
  "py_int s =
     (let t = py_strip s;
          (sign, body) =
             (case t of
                [] \<Rightarrow> (1, [])
              | c # r \<Rightarrow> if c = CHR ''-'' then (- 1, r) else if c = CHR ''+'' then (1, r) else (1, t))
      in case parse_digits 0 False body of
           None \<Rightarrow> Inl (ValueError ''invalid literal for int() with base 10'')
         | Some n \<Rightarrow> Inr (sign * int n))"

definition py_max :: "int list \<Rightarrow> py_error + int" where
  "py_max xs =
     (case xs of
        [] \<Rightarrow> Inl (ValueError ''max() arg is an empty sequence'')
      | x # r \<Rightarrow> Inr (foldl max x r))"

definition py_pop :: "'a list \<Rightarrow> py_error + 'a list" where
  \<comment> \<open>\<open>xs.pop()\<close>: the list that remains\<close>
  "py_pop xs = (if xs = [] then Inl IndexError else Inr (butlast xs))"

section \<open>Configuration\<close>

record experiment_record =
  number :: int
  episode :: int
  prompt_deletion :: bool

record hyperparameters_cfg =
  outer_loop_lr :: real
  inner_loop_lr :: real
  finetuning_lr :: real
  num_adaptation_steps :: int
  num_finetuning_steps :: int

record config =
  data_path :: string
  experiment_cfg :: experiment_record
  hyperparameters :: hyperparameters_cfg
  display_stats_interval :: int

definition model_dir_of :: "config \<Rightarrow> string" where
  \<comment> \<open>\<open>os.path.join(config.data_path, "models", "experiment_{}".format(experiment.number))\<close>\<close>
  "model_dir_of cfg =
     os_path_join (data_path cfg) [''models'', ''experiment_'' @ py_str_int (number (experiment_cfg cfg))]"

definition checkpoint_name :: "int \<Rightarrow> string" where
  \<comment> \<open>\<open>f"checkpoint_{episode}.pth.tar"\<close>\<close>
  "checkpoint_name ep = ''checkpoint_'' @ py_str_int ep @ ''.pth.tar''"

definition checkpoint_path_of :: "config \<Rightarrow> int \<Rightarrow> string" where
  \<comment> \<open>\<open>os.path.join(model_dir, f"checkpoint_{episode}.pth.tar")\<close>\<close>
  "checkpoint_path_of cfg ep = os_path_join (model_dir_of cfg) [checkpoint_name ep]"

section \<open>load_model: the episode that is loaded\<close>

text \<open>
  Both modules define \<open>load_model\<close>. The embedding takes the list that
  \<open>os.listdir(model_dir)\<close> returned and goes as far as the path given to
  \<open>torch.load\<close>; it returns the episode and that path.
\<close>

definition model_load_model :: "config \<Rightarrow> string list \<Rightarrow> py_error + (int \<times> string)" where
  \<comment> \<open>model.py\<close>
  "model_load_model cfg listing =
     (let checkpoints = filter (\<lambda>i. splitext_ext i = ''.tar'') listing in
      then_do (map_err (\<lambda>cp.
          then_do (py_index (py_split CHR ''.'' cp) 0) (\<lambda>stem.
          then_do (py_index (py_split CHR ''_'' stem) 1) py_int)) checkpoints) (\<lambda>eps.
      then_do (py_max eps) (\<lambda>max_cp.
        let ep = (if episode (experiment_cfg cfg) = - 1 then max_cp else episode (experiment_cfg cfg))
        in Inr (ep, checkpoint_path_of cfg ep))))"

definition utils_load_model :: "config \<Rightarrow> string list \<Rightarrow> py_error + (int \<times> string)" where
  \<comment> \<open>utils.py\<close>
  "utils_load_model cfg listing =
     then_do (py_pop listing) (\<lambda>checkpoints.
     then_do (map_err (\<lambda>cp. then_do (py_index cp 11) (\<lambda>c. py_int [c])) checkpoints) (\<lambda>eps.
     then_do (py_max eps) (\<lambda>max_cp.
       let ep = (if episode (experiment_cfg cfg) = - 1 then max_cp else episode (experiment_cfg cfg))
       in Inr (ep, checkpoint_path_of cfg ep))))"

section \<open>save_model\<close>

text \<open>
  The two modules define the same \<open>save_model\<close>. The world it acts on: the files (a path
  to its contents), the lines still to be read by \<open>input()\<close> and the lines printed.
  The routine returns the world also when it raises. \<open>data_to_save\<close> is the serialised
  dictionary that \<open>torch.save\<close> writes.
\<close>

record world =
  files :: "string \<rightharpoonup> string"
  stdin :: "string list"
  stdout :: "string list"

definition py_print :: "string \<Rightarrow> world \<Rightarrow> world" where
  "py_print line w = w\<lparr>stdout := stdout w @ [line]\<rparr>"

definition py_input :: "world \<Rightarrow> (py_error + string) \<times> world" where
  "py_input w =
     (case stdin w of
        [] \<Rightarrow> (Inl EOFError, w)
      | l # ls \<Rightarrow> (Inr l, w\<lparr>stdin := ls\<rparr>))"

definition os_path_exists :: "string \<Rightarrow> world \<Rightarrow> bool" where
  "os_path_exists path w = (files w path \<noteq> None)"

definition os_remove :: "string \<Rightarrow> world \<Rightarrow> world" where
  \<comment> \<open>only called on a path that exists\<close>
  "os_remove path w = w\<lparr>files := (files w)(path := None)\<rparr>"

definition torch_save :: "string \<Rightarrow> string \<Rightarrow> world \<Rightarrow> world" where
  "torch_save content path w = w\<lparr>files := (files w)(path \<mapsto> content)\<rparr>"

definition log_data :: "string \<Rightarrow> string \<Rightarrow> world \<Rightarrow> world" where
  \<comment> \<open>appends to the file, or creates it\<close>
  "log_data msg log_filename w =
     (case files w log_filename of
        None \<Rightarrow> w\<lparr>files := (files w)(log_filename \<mapsto> msg)\<rparr>
      | Some old \<Rightarrow> w\<lparr>files := (files w)(log_filename \<mapsto> old @ msg)\<rparr>)"

definition positive_options :: "string list" where
  "positive_options = [''Yes'', ''y'', ''yes'']"

definition negative_options :: "string list" where
  "negative_options = [''No'', ''n'', ''no'']"

function save_model_loop ::
  "config \<Rightarrow> int \<Rightarrow> string \<Rightarrow> nat \<Rightarrow> world \<Rightarrow> (py_error + unit) \<times> world" where
  "save_model_loop cfg stats_episode data_to_save trials w =
     (if trials < 3 then
        (let checkpoint_path = checkpoint_path_of cfg stats_episode;
             (user_input, w1) =
               (if prompt_deletion (experiment_cfg cfg) then
                  py_input
                    (py_print ''Type Yes or y to confirm deletion else No or n''
                      (py_print (''Are you sure you want to delete checkpoint: ''
                                   @ py_str_int stats_episode) w))
                else (Inr ''Yes'', w))
         in case user_input of
              Inl e \<Rightarrow> (Inl e, w1)
            | Inr answer \<Rightarrow>
                if answer \<in> set positive_options then
                  (let w2 = os_remove checkpoint_path w1;
                       w3 = torch_save data_to_save checkpoint_path w2;
                       log_filename = os_path_join (model_dir_of cfg) [''model_log.txt''];
                       msg = [CHR 0x0A] @ ''*********** checkpoint '' @ py_str_int stats_episode
                               @ '' was deleted **************''
                   in (Inr (), log_data msg log_filename w3))
                else if answer \<in> set negative_options then
                  (Inl (ValueError ''Supply the correct episode number to start experiment''), w1)
                else
                  (let trials' = trials + 1;
                       w2 = py_print (''You have '' @ py_str_int (3 - int trials') @ '' left'')
                              (py_print ''Wrong Value Supplied'' w1)
                   in if trials' = 3
                      then (Inl (ValueError ''Supply the correct answer to the question''), w2)
                      else save_model_loop cfg stats_episode data_to_save trials' w2))
      else (Inr (), w))"
  by pat_completeness auto
termination
  by (relation "measure (\<lambda>(cfg, stats_episode, data_to_save, trials, w). 3 - trials)") auto

definition save_model :: "config \<Rightarrow> int \<Rightarrow> string \<Rightarrow> world \<Rightarrow> (py_error + unit) \<times> world" where
  "save_model cfg stats_episode data_to_save w =
     (let checkpoint_path = checkpoint_path_of cfg stats_episode in
      if \<not> os_path_exists checkpoint_path w
      then (Inr (), torch_save data_to_save checkpoint_path w)
      else save_model_loop cfg stats_episode data_to_save 0 w)"

section \<open>model.py: names, tensors and the network\<close>

text \<open>
  The names bound at module level of model.py: by its imports and by its \<open>class\<close> and
  \<open>def\<close> statements. A name that a function reads and does not bind itself is looked up
  here (none of the names looked up below is a Python builtin).
\<close>

datatype py_obj = Module string | Function string | Class string

definition model_py_globals :: "(string \<times> py_obj) list" where
  "model_py_globals =
     [(''os'', Module ''os''), (''torch'', Module ''torch''), (''np'', Module ''numpy''),
      (''nn'', Module ''torch.nn''), (''Normal'', Class ''torch.distributions.Normal''),
      (''CrossEntropyLoss'', Class ''torch.nn.CrossEntropyLoss''),
      (''SummaryWriter'', Class ''torch.utils.tensorboard.SummaryWriter''),
      (''models'', Module ''torchvision.models''), (''F'', Module ''torch.nn.functional''),
      (''display_data_shape'', Function ''utils.display_data_shape''),
      (''get_named_dict'', Function ''utils.get_named_dict''),
      (''calc_iou_per_class'', Function ''utils.calc_iou_per_class''),
      (''log_data'', Function ''utils.log_data''),
      (''load_config'', Function ''utils.load_config''),
      (''EncoderBlock'', Class ''EncoderBlock''), (''decoder_block'', Function ''decoder_block''),
      (''DecoderBlock'', Class ''DecoderBlock''), (''LEO'', Class ''LEO''),
      (''save_model'', Function ''save_model''), (''load_model'', Function ''load_model'')]"

definition load_global :: "string \<Rightarrow> py_error + py_obj" where
  "load_global name =
     (case map_of model_py_globals name of
        None \<Rightarrow> Inl (NameError name)
      | Some v \<Rightarrow> Inr v)"

text \<open>
  A torch tensor is a point of a real vector space \<open>'v\<close>: the routines below only add,
  subtract and scale tensors (\<open>w - lr * g\<close>, \<open>g / n\<close>). Shapes and rounding are not
  modelled. The state of the \<open>LEO\<close> object: its meta-parameters (the head weight and the
  decoder's parameters), their \<open>.grad\<close> slots, and the states of its two optimizers.
\<close>

record ('v, 'o) leo =
  seg_weight :: "'v"
  decoder_parameters :: "'v list"
  seg_weight_grad_slot :: "'v option"
  decoder_grad_slots :: "'v option list"
  optimizer_decoder :: "'o"
  optimizer_seg_network :: "'o"

text \<open>
  What the routines call in torch, torchvision and numpy, and the embedding does not look
  into: the layers of the pretrained backbone, the loss, automatic differentiation, the
  steps of the optimizers, and the conversions and reshapings of tensors (the reshaping
  \<open>get_in_sequence\<close> of utils.py among them, as shapes are not modelled). These are
  total functions here.
  \<open>autograd_grad loss x\<close> is \<open>torch.autograd.grad(loss, [x])[0]\<close>;
  \<open>autograd_grad_val loss w ps\<close> is the pair of gradients of the validation loss with
  respect to the weight and to the decoder's parameters.
  \<open>decoder_step\<close> and \<open>seg_network_step\<close> are the \<open>step()\<close> of the two optimizers: from
  the optimizer's state, its parameters and their \<open>.grad\<close> slots to the new state and
  the new parameters. \<open>tensor_iter\<close> gives the parts that iterating over a tensor
  yields (one for each index of its first dimension). \<open>py_call\<close> is the call of an
  object that a name is bound to, and \<open>decoder_block\<close> is \<open>DecoderBlock.forward\<close> on
  the arguments bound to its parameters.

  Every function of model.py itself is embedded below with what it does when it is called,
  also where that is to raise on every call.
\<close>

record ('v, 'o) torch =
  encoder_layers :: "('v \<Rightarrow> 'v) list"
  loss_fn :: "'v \<Rightarrow> 'v \<Rightarrow> 'v"
  autograd_grad :: "'v \<Rightarrow> 'v \<Rightarrow> 'v"
  autograd_grad_val :: "'v \<Rightarrow> 'v \<Rightarrow> 'v list \<Rightarrow> 'v \<times> 'v list"
  decoder_step :: "'o \<Rightarrow> 'v list \<Rightarrow> 'v option list \<Rightarrow> 'o \<times> 'v list"
  seg_network_step :: "'o \<Rightarrow> 'v \<Rightarrow> 'v option \<Rightarrow> 'o \<times> 'v"
  numpy_logits :: "'v \<Rightarrow> real list list list"
  numpy_masks :: "'v \<Rightarrow> real list list"
  tensor_float :: "'v \<Rightarrow> real"
  tensor_iter :: "'v \<Rightarrow> 'v list"
  get_in_sequence :: "'v \<Rightarrow> 'v"
  decoder_block :: "('v \<times> 'v list) list \<Rightarrow> 'v"
  py_call :: "py_obj \<Rightarrow> 'v list \<Rightarrow> py_error + 'v list"
  torch_cat :: "'v list \<Rightarrow> nat \<Rightarrow> 'v"
  F_conv2d :: "'v \<Rightarrow> 'v \<Rightarrow> py_obj \<Rightarrow> nat \<Rightarrow> 'v"

text \<open>
  A statement that may raise, in a routine whose effects so far are \<open>here\<close>: the error
  is returned with them.
\<close>

definition try_with :: "'s \<Rightarrow> py_error + 'a \<Rightarrow> ('a \<Rightarrow> (py_error \<times> 's) + 'b) \<Rightarrow> (py_error \<times> 's) + 'b" where
  "try_with here r f = (case r of Inl e \<Rightarrow> Inl (e, here) | Inr v \<Rightarrow> f v)"

text \<open>
  A \<open>for\<close> loop over a list, whose body either goes on with a new value of the loop's
  variables, returns from the function, or raises.
\<close>

datatype ('s, 'r) flow = Continue 's | Return 'r

fun py_for ::
  "'a list \<Rightarrow> ('a \<Rightarrow> 's \<Rightarrow> 'e + ('s, 'r) flow) \<Rightarrow> 's \<Rightarrow> 'e + ('s, 'r) flow" where
  "py_for [] body s = Inr (Continue s)"
| "py_for (x # xs) body s =
     (case body x s of
        Inl e \<Rightarrow> Inl e
      | Inr (Return r) \<Rightarrow> Inr (Return r)
      | Inr (Continue s') \<Rightarrow> py_for xs body s')"

definition py_range :: "int \<Rightarrow> nat list" where
  \<comment> \<open>\<open>range(n)\<close>, empty when \<open>n \<le> 0\<close>\<close>
  "py_range n = [0 ..< nat n]"

definition py_unpack2 :: "'a list \<Rightarrow> py_error + ('a \<times> 'a)" where
  \<comment> \<open>\<open>a, b = xs\<close>\<close>
  "py_unpack2 xs =
     (case xs of
        [a, b] \<Rightarrow> Inr (a, b)
      | _ \<Rightarrow> Inl (ValueError ''wrong number of values to unpack (expected 2)''))"

definition py_bind_positional :: "nat \<Rightarrow> 'a list \<Rightarrow> py_error + 'a list" where
  \<comment> \<open>a call binds its positional arguments to the parameters of the function, none of
      which has a default\<close>
  "py_bind_positional parameters args =
     (if length args < parameters
      then Inl (TypeError ''missing required positional argument'')
      else if parameters < length args
      then Inl (TypeError ''too many positional arguments'')
      else Inr args)"

section \<open>LEO.forward_segnetwork\<close>

text \<open>
  \<open>F.conv2d(o, weight, bias, padding=1)\<close>: the third argument is the name \<open>bias\<close>, which
  the function does not bind. The last argument of \<open>F_conv2d\<close> is the padding.
\<close>

definition forward_segnetwork ::
  "('v, 'o) torch \<Rightarrow> ('v, 'o) leo \<Rightarrow> 'v \<Rightarrow> 'v \<Rightarrow> 'v \<Rightarrow> py_error + 'v" where
  "forward_segnetwork T self decoder_out x weight =
     (let o' = torch_cat T [decoder_out, x] 1 in
      then_do (load_global ''bias'') (\<lambda>bias.
        Inr (F_conv2d T o' weight bias 1)))"

section \<open>EncoderBlock.forward, LEO.forward_encoder, LEO.forward_decoder, LEO.forward\<close>

fun encoder_block_layers :: "('v \<Rightarrow> 'v) list \<Rightarrow> nat \<Rightarrow> 'v \<Rightarrow> 'v list \<Rightarrow> 'v \<times> 'v list" where
  "encoder_block_layers [] i x features = (x, features)"
| "encoder_block_layers (layer # layers) i x features =
     (let x' = layer x in
      encoder_block_layers layers (Suc i) x'
        (if i \<in> set [1, 3, 6, 13] then features @ [x'] else features))"

definition encoder_block_forward :: "('v, 'o) torch \<Rightarrow> 'v \<Rightarrow> 'v \<times> 'v list" where
  \<comment> \<open>\<open>return x, features\<close>: a tuple of a tensor and a list\<close>
  "encoder_block_forward T x = encoder_block_layers (encoder_layers T) 0 x []"

definition py_list_attributes :: "string list" where
  \<comment> \<open>the attributes of a Python list, the special ones (in double underscores) left out\<close>
  "py_list_attributes =
     [''append'', ''clear'', ''copy'', ''count'', ''extend'', ''index'', ''insert'', ''pop'',
      ''remove'', ''reverse'', ''sort'']"

definition list_getattr :: "string \<Rightarrow> py_error + py_obj" where
  "list_getattr name =
     (if name \<in> set py_list_attributes then Inr (Function (''list.'' @ name))
      else Inl (AttributeError name))"

text \<open>
  \<open>forward_encoder\<close> reads \<open>encoder_outputs[-1].requires_grad\<close>. \<open>encoder_outputs\<close> is
  the tuple that \<open>EncoderBlock.forward\<close> returns, and its last component is the list
  \<open>features\<close>, which has no such attribute. (The assignment to the attribute, under the
  \<open>if\<close>, is not embedded: the attribute is read first.)
\<close>

definition forward_encoder ::
  "('v, 'o) torch \<Rightarrow> ('v, 'o) leo \<Rightarrow> 'v \<Rightarrow> py_error + ('v \<times> 'v list)" where
  "forward_encoder T self x =
     (let encoder_outputs = encoder_block_forward T x in
      then_do (list_getattr ''requires_grad'') (\<lambda>requires_grad.
        Inr encoder_outputs))"

text \<open>
  \<open>forward_decoder\<close> calls \<open>self.decoder(encoder_outputs)\<close>, with one argument, and
  \<open>DecoderBlock.forward(self, x, concat_features)\<close> has two parameters beside \<open>self\<close>.
  \<open>decoder_block\<close> stands for that function on the arguments bound.
\<close>

definition forward_decoder ::
  "('v, 'o) torch \<Rightarrow> ('v, 'o) leo \<Rightarrow> 'v \<times> 'v list \<Rightarrow> py_error + 'v" where
  "forward_decoder T self encoder_outputs =
     then_do (py_bind_positional 2 [encoder_outputs]) (\<lambda>args.
       Inr (decoder_block T args))"

text \<open>
  \<open>forward\<close>. With \<open>latents\<close> given, \<open>encoder_outputs[:4] + [latents]\<close> adds a list to a
  tuple; without, \<open>latents\<close> is the last component of the tuple, the list of features.
  The body of \<open>forward\<close> ends with its \<open>return\<close> statement. The \<open>def leo_inner_loop\<close>
  that the source has after it, at line 152, is indented into the body of \<open>forward\<close>: no
  call of \<open>forward\<close> reaches it, and it is not a statement of the class \<open>LEO\<close>.
\<close>

definition forward ::
  "('v, 'o) torch \<Rightarrow> ('v, 'o) leo \<Rightarrow> 'v \<Rightarrow> 'v option \<Rightarrow> py_error + ('v list \<times> 'v \<times> 'v)" where
  "forward T self x latents =
     then_do (forward_encoder T self x) (\<lambda>encoder_outputs.
       case latents of
         Some l \<Rightarrow> Inl (TypeError ''can only concatenate tuple (not list) to tuple'')
       | None \<Rightarrow>
           (let latents' = snd encoder_outputs in
            then_do (forward_decoder T self encoder_outputs) (\<lambda>features.
            then_do (forward_segnetwork T self features x (seg_weight self)) (\<lambda>pred.
              Inr (latents', features, pred)))))"

section \<open>The attributes of a LEO object\<close>

text \<open>
  The functions that the body of \<open>class LEO\<close> defines. The attributes that \<open>__init__\<close>
  sets and those inherited from \<open>nn.Module\<close> are read directly by the embedding; none
  of them is named \<open>leo_inner_loop\<close>.
\<close>

definition leo_class_namespace :: "(string \<times> py_obj) list" where
  "leo_class_namespace =
     [(''__init__'', Function ''LEO.__init__''),
      (''freeze_encoder'', Function ''LEO.freeze_encoder''),
      (''forward_encoder'', Function ''LEO.forward_encoder''),
      (''forward_decoder'', Function ''LEO.forward_decoder''),
      (''forward_segnetwork'', Function ''LEO.forward_segnetwork''),
      (''forward'', Function ''LEO.forward''),
      (''finetuning_inner_loop'', Function ''LEO.finetuning_inner_loop''),
      (''compute_loss'', Function ''LEO.compute_loss'')]"

definition leo_getattr :: "string \<Rightarrow> py_error + py_obj" where
  "leo_getattr name =
     (case map_of leo_class_namespace name of
        None \<Rightarrow> Inl (AttributeError name)
      | Some f \<Rightarrow> Inr f)"

section \<open>The statement at lines 213 to 215 of model.py\<close>

text \<open>
  The three physical lines of the statement, in \<open>finetuning_inner_loop\<close>, as the source
  has them. Python joins physical lines into one logical line while a bracket is open or
  the line ends in a backslash (the lines hold no string and no comment). A logical line
  that ends in a name followed by a dot is an attribute reference without its attribute:
  it does not compile.
\<close>

definition lines_213_215 :: "string list" where
  "lines_213_215 =
     [''                seg_weight_grad, decoder_grads = torch.autograd.'',
      ''                grad(val_loss, [weight, self.decoder.parameters()],'',
      ''                     create_graph=False)'']"

fun bracket_depth :: "string \<Rightarrow> int \<Rightarrow> int" where
  "bracket_depth [] d = d"
| "bracket_depth (c # cs) d =
     bracket_depth cs
       (if c \<in> set ''([{'' then d + 1 else if c \<in> set '')]}'' then d - 1 else d)"

fun logical_line :: "int \<Rightarrow> string list \<Rightarrow> string" where
  "logical_line d [] = []"
| "logical_line d (l # ls) =
     (let d' = bracket_depth l d in
      if 0 < d' \<or> (l \<noteq> [] \<and> last l = CHR 0x5C) then l @ logical_line d' ls else l)"

definition is_name_start :: "char \<Rightarrow> bool" where
  "is_name_start c = (c \<in> set ''abcdefghijklmnopqrstuvwxyzABCDEFGHIJKLMNOPQRSTUVWXYZ_'')"

definition is_name_char :: "char \<Rightarrow> bool" where
  "is_name_char c = (is_name_start c \<or> c \<in> set ''0123456789'')"

definition ends_in_attribute_dot :: "string \<Rightarrow> bool" where
  "ends_in_attribute_dot line =
     (let t = rev (dropWhile py_isspace (rev line));
          name = rev (takeWhile is_name_char (rev (butlast t)))
      in t \<noteq> [] \<and> last t = CHR ''.'' \<and> name \<noteq> [] \<and> is_name_start (hd name))"

definition py_compile_statement :: "string list \<Rightarrow> py_error + unit" where
  "py_compile_statement ls =
     (if ends_in_attribute_dot (logical_line 0 ls) then Inl (SyntaxError ''invalid syntax'')
      else Inr ())"

section \<open>LEO.finetuning_inner_loop\<close>

text \<open>
  \<open>data_dict\<close> is an EasyDict: its keys, with their values, are its attributes.
\<close>

type_synonym 'v edict = "(string \<times> 'v) list"

definition edict_getattr :: "'v edict \<Rightarrow> string \<Rightarrow> py_error + 'v" where
  "edict_getattr d name =
     (case map_of d name of
        None \<Rightarrow> Inl (AttributeError name)
      | Some v \<Rightarrow> Inr v)"

text \<open>
  What the routine returns: the 4-tuple, or \<open>None\<close> when its last statement is reached
  without a \<open>return\<close>. The events are a record, kept beside the result and beside an
  error, of the gradient-descent steps on the task-local weight, of the evaluations on the
  validation set, and (in \<open>compute_loss\<close>) of the steps of the two optimizers.
\<close>

datatype 'v ft_return = PyNone | Tuple4 "'v" "'v option" "'v list option" np_float

datatype event = Descent | Validation | StepDecoder | StepSegNetwork

text \<open>
  The body of the loop, with the statement at lines 213 to 215 read as the one call
  \<open>torch.autograd.grad(val_loss, [weight, self.decoder.parameters()], create_graph=False)\<close>
  that its three lines spell. \<open>self.forward_segnetwork\<close>, \<open>self.forward_encoder\<close> and
  \<open>self.forward_decoder\<close> are the functions embedded above.
\<close>

definition finetuning_inner_loop_body ::
  "('v::real_vector, 'o) torch \<Rightarrow> ('v, 'o) leo \<Rightarrow> real \<Rightarrow> 'v edict \<Rightarrow> 'v \<Rightarrow> string \<Rightarrow> nat
     \<Rightarrow> 'v \<times> event list
     \<Rightarrow> (py_error \<times> event list) + ('v \<times> event list, 'v ft_return \<times> event list) flow" where
  "finetuning_inner_loop_body T self finetuning_lr' data_dict tr_features mode i s =
     (let (weight, events) = s in
        try_with events (edict_getattr data_dict ''tr_imgs'') (\<lambda>imgs.
        try_with events (forward_segnetwork T self tr_features imgs weight) (\<lambda>pred.
        try_with events (edict_getattr data_dict ''tr_masks'') (\<lambda>masks.
        let tr_loss = loss_fn T pred masks;
            seg_weight_grad = autograd_grad T tr_loss weight;
            weight1 = weight - finetuning_lr' *\<^sub>R seg_weight_grad;
            events1 = events @ [Descent]
        in if mode = ''meta_train'' then
             try_with events1 (edict_getattr data_dict ''val_imgs'') (\<lambda>val_imgs.
             try_with events1 (forward_encoder T self val_imgs) (\<lambda>encoder_outputs.
             try_with events1 (forward_decoder T self encoder_outputs) (\<lambda>features.
             try_with events1 (forward_segnetwork T self features val_imgs weight1) (\<lambda>pred_val.
             try_with events1 (edict_getattr data_dict ''val_masks'') (\<lambda>val_masks.
             let val_loss = loss_fn T pred_val val_masks;
                 (seg_weight_grad_val, decoder_grads) =
                    autograd_grad_val T val_loss weight1 (decoder_parameters self);
                 events2 = events1 @ [Validation]
             in try_with events2 (calc_iou_per_class (numpy_logits T pred_val)
                                    (numpy_masks T val_masks)) (\<lambda>mean_iou.
                  Inr (Return (Tuple4 val_loss (Some seg_weight_grad_val) (Some decoder_grads)
                                 mean_iou, events2))))))))
           else
             \<comment> \<open>\<open>val_img_paths = data.val_imgs\<close>: the function binds no \<open>data\<close>, and the
                 objects bound at module level have no attribute \<open>val_imgs\<close>\<close>
             try_with events1 (load_global ''data'') (\<lambda>data.
               Inl (AttributeError ''val_imgs'', events1))))))"

definition finetuning_inner_loop_joined ::
  "('v::real_vector, 'o) torch \<Rightarrow> config \<Rightarrow> ('v, 'o) leo \<Rightarrow> 'v edict \<Rightarrow> 'v \<Rightarrow> 'v
     \<Rightarrow> 'a \<times> 'b \<Rightarrow> string \<Rightarrow> (py_error \<times> event list) + ('v ft_return \<times> event list)" where
  \<comment> \<open>the routine with lines 213 to 215 read as one call\<close>
  "finetuning_inner_loop_joined T cfg self data_dict tr_features seg_weight_grad transformers mode =
     (let (img_transformer, mask_transformer) = transformers;
          finetuning_lr' = finetuning_lr (hyperparameters cfg);
          num_steps = num_finetuning_steps (hyperparameters cfg);
          weight = seg_weight self - finetuning_lr' *\<^sub>R seg_weight_grad
      in case py_for (py_range (num_steps - 1))
                (finetuning_inner_loop_body T self finetuning_lr' data_dict tr_features mode)
                (weight, []) of
           Inl e \<Rightarrow> Inl e
         | Inr (Return r) \<Rightarrow> Inr r
         | Inr (Continue (weight', events)) \<Rightarrow> Inr (PyNone, events))"

text \<open>
  The routine as the source has it. Python compiles the source before it runs any of it,
  and the statement at lines 213 to 215 does not compile: the routine is never defined and
  no call runs its body. The embedding keeps this failure with the routine that holds the
  statement.
\<close>

definition finetuning_inner_loop ::
  "('v::real_vector, 'o) torch \<Rightarrow> config \<Rightarrow> ('v, 'o) leo \<Rightarrow> 'v edict \<Rightarrow> 'v \<Rightarrow> 'v
     \<Rightarrow> 'a \<times> 'b \<Rightarrow> string \<Rightarrow> (py_error \<times> event list) + ('v ft_return \<times> event list)" where
  "finetuning_inner_loop T cfg self data_dict tr_features seg_weight_grad transformers mode =
     try_with [] (py_compile_statement lines_213_215) (\<lambda>compiled.
       finetuning_inner_loop_joined T cfg self data_dict tr_features seg_weight_grad
         transformers mode)"

section \<open>LEO.compute_loss\<close>

text \<open>
  \<open>metadata\<close> is the 5-tuple of the training images, training masks, validation images,
  validation masks and classes, each with one entry for every task.
  \<open>get_named_dict\<close> is the second of the two definitions of utils.py, the one in force
  when model.py imports it; its \<open>print\<close> is not embedded.
\<close>

type_synonym 'v metadata = "'v list \<times> 'v list \<times> 'v list \<times> 'v list \<times> string list"

definition get_named_dict ::
  "('v, 'o) torch \<Rightarrow> 'v metadata \<Rightarrow> nat \<Rightarrow> py_error + 'v edict" where
  "get_named_dict T metadata batch =
     (let (tr_data, tr_data_masks, val_data, val_masks, classes) = metadata in
        then_do (py_index tr_data batch) (\<lambda>tr.
        then_do (py_index tr_data_masks batch) (\<lambda>trm.
        then_do (py_index val_data batch) (\<lambda>val.
        then_do (py_index val_masks batch) (\<lambda>valm.
          Inr [(''tr_data_orig'', tr),
               (''tr_data'', get_in_sequence T tr),
               (''tr_data_masks'', trm),
               (''val_data_orig'', val),
               (''val_data'', get_in_sequence T val),
               (''val_data_masks'', valm)])))))"

text \<open>
  Modelled from the spec: the class of \<open>train_stats\<close> is not in the source. TrainStats
  holds the mode, the episode counter, the last validation loss and the mean IoU of every
  class; \<open>update_stats\<close> stores the three values it is given.
\<close>

record train_stats =
  stats_episode :: int
  stats_mode :: string
  stats_total_val_loss :: real
  stats_mean_iou_dict :: "string \<rightharpoonup> np_float"

definition update_stats :: "train_stats \<Rightarrow> string \<Rightarrow> real \<Rightarrow> (string \<rightharpoonup> np_float) \<Rightarrow> train_stats" where
  "update_stats st mode total_val_loss mean_iou_dict =
     st\<lparr>stats_mode := mode, stats_total_val_loss := total_val_loss,
        stats_mean_iou_dict := mean_iou_dict\<rparr>"

definition accumulate_grads ::
  "nat \<Rightarrow> 'v list option \<Rightarrow> 'v option \<Rightarrow> 'v list option
     \<Rightarrow> py_error + ('v::real_vector list option \<times> 'v option)" where
  \<comment> \<open>the statements under \<open>if mode == "meta_train"\<close>: the new \<open>total_grads\<close> and
      \<open>seg_weight_grad\<close>\<close>
  "accumulate_grads num_tasks total_grads seg_weight_grad decoder_grads =
     (case decoder_grads of
        None \<Rightarrow> Inl (TypeError ''NoneType object is not iterable'')
      | Some dgs \<Rightarrow>
          let decoder_grads1 = map (\<lambda>grad. grad /\<^sub>R real num_tasks) dgs in
          (case total_grads of
             None \<Rightarrow>
               (case seg_weight_grad of
                  None \<Rightarrow> Inl (TypeError ''unsupported operand type(s) for /'')
                | Some g \<Rightarrow> Inr (Some decoder_grads1, Some (g /\<^sub>R real num_tasks)))
           | Some tgs \<Rightarrow>
               then_do (map_err (\<lambda>i. then_do (py_index tgs i) (\<lambda>a.
                                      then_do (py_index decoder_grads1 i) (\<lambda>b. Inr (a + b))))
                          [0 ..< length decoder_grads1]) (\<lambda>total_grads1.
                 case seg_weight_grad of
                   None \<Rightarrow> Inl (TypeError ''unsupported operand type(s) for /'')
                 | Some g \<Rightarrow> Inr (Some total_grads1, Some (g + g /\<^sub>R real num_tasks)))))"

text \<open>
  \<open>for name, params in self.decoder.parameters()\<close>: \<open>parameters()\<close> yields the
  parameter tensors, and each is unpacked into the two names, which raises unless the
  first dimension of the tensor has size 2. \<open>params.grad = total_grads[i]\<close> then sets the
  slot of the second part, an object of its own: no slot of a parameter is assigned.
\<close>

definition assign_grads ::
  "('v, 'o) torch \<Rightarrow> 'v list \<Rightarrow> 'v list option \<Rightarrow> py_error + unit list" where
  "assign_grads T parameters total_grads =
     map_err (\<lambda>i.
         then_do (py_index parameters i) (\<lambda>p.
         then_do (py_unpack2 (tensor_iter T p)) (\<lambda>(name, params).
           case total_grads of
             None \<Rightarrow> Inl (TypeError ''NoneType object is not subscriptable'')
           | Some tgs \<Rightarrow> then_do (py_index tgs i) (\<lambda>g. Inr ()))))
       [0 ..< length parameters]"

definition zero_grad :: "('v, 'o) leo \<Rightarrow> ('v, 'o) leo" where
  \<comment> \<open>\<open>zero_grad()\<close> of both optimizers\<close>
  "zero_grad self =
     self\<lparr>decoder_grad_slots := map (\<lambda>p. None) (decoder_parameters self),
          seg_weight_grad_slot := None\<rparr>"

text \<open>
  The body of the loop over the tasks. \<open>self.leo_inner_loop\<close> is looked up on the object
  before the arguments of the call are evaluated. An error is returned with the \<open>LEO\<close>
  object and the events as they are when it is raised.
\<close>

definition compute_loss_body ::
  "('v::real_vector, 'o) torch \<Rightarrow> config \<Rightarrow> 'v metadata \<Rightarrow> 'a \<times> 'b \<Rightarrow> string \<Rightarrow> nat \<Rightarrow> nat
     \<Rightarrow> ('v, 'o) leo \<times> 'v list option \<times> 'v list \<times> (string \<rightharpoonup> np_float) \<times> event list
     \<Rightarrow> (py_error \<times> ('v, 'o) leo \<times> event list)
         + (('v, 'o) leo \<times> 'v list option \<times> 'v list \<times> (string \<rightharpoonup> np_float) \<times> event list,
            real \<times> train_stats \<times> ('v, 'o) leo \<times> event list) flow" where
  "compute_loss_body T cfg metadata transformers mode num_tasks batch s =
     (let (self, total_grads, total_val_loss, mean_iou_dict, events) = s;
          (tr_data, tr_data_masks, val_data, val_masks, classes) = metadata;
          here = (self, events)
      in
        try_with here (get_named_dict T metadata batch) (\<lambda>data.
        try_with here (leo_getattr ''leo_inner_loop'') (\<lambda>leo_inner_loop.
        try_with here (edict_getattr data ''tr_imgs'') (\<lambda>imgs.
        try_with here (edict_getattr data ''tr_masks'') (\<lambda>masks.
        try_with here (py_call T leo_inner_loop [imgs, masks]) (\<lambda>returned.
        try_with here (py_unpack2 returned) (\<lambda>(seg_weight_grad0, features).
          case finetuning_inner_loop T cfg self data features seg_weight_grad0 transformers mode of
            Inl (e, ft_events) \<Rightarrow> Inl (e, here)
          | Inr (PyNone, ft_events) \<Rightarrow>
              Inl (TypeError ''cannot unpack non-iterable NoneType object'', here)
          | Inr (Tuple4 val_loss seg_weight_grad decoder_grads mean_iou, ft_events) \<Rightarrow>
              try_with here
                (if mode = ''meta_train''
                 then accumulate_grads num_tasks total_grads seg_weight_grad decoder_grads
                 else Inr (total_grads, seg_weight_grad)) (\<lambda>(total_grads1, seg_weight_grad1).
              let self1 = zero_grad self in
              try_with (self1, events)
                (assign_grads T (decoder_parameters self1) total_grads1) (\<lambda>assigned.
              let self2 = self1\<lparr>seg_weight_grad_slot := seg_weight_grad1\<rparr>;
                  (od, dps) = decoder_step T (optimizer_decoder self2) (decoder_parameters self2)
                                (decoder_grad_slots self2);
                  self3 = self2\<lparr>optimizer_decoder := od, decoder_parameters := dps\<rparr>;
                  (os, sw) = seg_network_step T (optimizer_seg_network self3) (seg_weight self3)
                               (seg_weight_grad_slot self3);
                  self4 = self3\<lparr>optimizer_seg_network := os, seg_weight := sw\<rparr>;
                  events2 = events @ [StepDecoder, StepSegNetwork]
              in try_with (self4, events2) (py_index classes batch) (\<lambda>c.
                   Inr (Continue (self4, total_grads1, total_val_loss @ [val_loss],
                                  mean_iou_dict(c \<mapsto> mean_iou), events2))))))))))))"

definition compute_loss ::
  "('v::real_vector, 'o) torch \<Rightarrow> config \<Rightarrow> ('v, 'o) leo \<Rightarrow> 'v metadata \<Rightarrow> train_stats \<Rightarrow> 'a \<times> 'b
     \<Rightarrow> string
     \<Rightarrow> (py_error \<times> ('v, 'o) leo \<times> event list)
         + (real \<times> train_stats \<times> ('v, 'o) leo \<times> event list)" where
  \<comment> \<open>\<open>display_data_shape\<close> only prints; beside the two values the source returns, the
      result has the \<open>LEO\<close> object as the call leaves it and the events\<close>
  "compute_loss T cfg self metadata stats transformers mode =
     (let (tr_data, tr_data_masks, val_data, val_masks, classes) = metadata;
          num_tasks = length tr_data
      in
        if display_stats_interval cfg = 0 then Inl (ZeroDivisionError, self, [])
        else
          (case py_for [0 ..< num_tasks]
                  (compute_loss_body T cfg metadata transformers mode num_tasks)
                  (self, None, [], Map.empty, []) of
             Inl e \<Rightarrow> Inl e
           | Inr (Return r) \<Rightarrow> Inr r
           | Inr (Continue (self', total_grads, total_val_loss, mean_iou_dict, events)) \<Rightarrow>
               (if length total_val_loss = 0 then Inl (ZeroDivisionError, self', events)
                else
                  (let total = tensor_float T
                                 (sum_list total_val_loss /\<^sub>R real (length total_val_loss))
                   in Inr (total, update_stats stats mode total mean_iou_dict, self', events)))))"

section \<open>Test instances\<close>

definition cfg0 :: config where
  "cfg0 =
     \<lparr>data_path = ''data'',
      experiment_cfg = \<lparr>number = 1, episode = - 1, prompt_deletion = True\<rparr>,
      hyperparameters =
        \<lparr>outer_loop_lr = 1, inner_loop_lr = 1, finetuning_lr = 1,
         num_adaptation_steps = 1, num_finetuning_steps = 3\<rparr>,
      display_stats_interval = 10\<rparr>"

definition world0 :: world where
  "world0 =
     \<lparr>files = [''data/models/experiment_1/checkpoint_5.pth.tar'' \<mapsto> ''old''],
      stdin = [''maybe'', ''Y'', ''nope'', ''yes''],
      stdout = []\<rparr>"

definition with_finetuning_steps :: "config \<Rightarrow> int \<Rightarrow> config" where
  \<comment> \<open>a configuration with another number of finetuning steps\<close>
  "with_finetuning_steps cfg n =
     cfg\<lparr>hyperparameters := (hyperparameters cfg)\<lparr>num_finetuning_steps := n\<rparr>\<rparr>"

definition task_dict :: "'v \<Rightarrow> 'v \<Rightarrow> 'v \<Rightarrow> 'v \<Rightarrow> 'v edict" where
  \<comment> \<open>a \<open>data_dict\<close> with the four attributes that the docstring of
      \<open>finetuning_inner_loop\<close> names\<close>
  "task_dict a b c d =
     [(''tr_imgs'', a), (''tr_masks'', b), (''val_imgs'', c), (''val_masks'', d)]"

definition two_tasks :: "'v \<Rightarrow> 'v \<Rightarrow> 'v metadata" where
  \<comment> \<open>a batch of two tasks\<close>
  "two_tasks a b = ([a, b], [a, b], [a, b], [a, b], [''cat'', ''dog''])"

section \<open>Properties of calc_iou_per_class\<close>

lemma np_sum_map2_mono:
  "(\<And>x y. f x y \<Longrightarrow> g x y) \<Longrightarrow> np_sum (map2 f a b) \<le> np_sum (map2 g a b)"
proof (induction a arbitrary: b)
  case Nil
  then show ?case by (simp add: np_sum_def)
next
  case (Cons x a)
  show ?case
  proof (cases b)
    case Nil
    then show ?thesis by (simp add: np_sum_def)
  next
    case (Cons y b')
    have "np_sum (map2 f a b') \<le> np_sum (map2 g a b')"
      by (rule Cons.IH) (rule Cons.prems)
    then show ?thesis
      using Cons Cons.prems [of x y] by (auto simp: np_sum_def)
  qed
qed

lemma np_sum_pos: "True \<in> set bs \<Longrightarrow> 0 < np_sum bs"
  unfolding np_sum_def by (induction bs) auto

lemma np_sum_zero: "True \<notin> set bs \<Longrightarrow> np_sum bs = 0"
  unfolding np_sum_def by (induction bs) auto

lemma map2_same: "map2 f a a = map (\<lambda>x. f x x) a"
  by (induction a) auto

lemma both_either_same: "both x x = either x x"
  by (simp add: both_def either_def)

text \<open>
  C8. For one prediction and its ground truth, of the same size, whose binarised masks
  (the arg-max \<open>p\<close> of the prediction, the integer ground truth) are not both empty,
  \<open>calc_iou_per_class\<close> returns a number \<open>r\<close> with \<open>0 \<le> r \<le> 1\<close>; \<open>r = 1\<close> when the
  prediction equals the ground truth, and \<open>r = 0\<close> when no pixel is positive in both.
\<close>

theorem calc_iou_per_class_range:
  assumes pred: "np_argmax0 logits = Inr p"
    and len: "length p = length target"
    and union: "\<exists>i < length p. p ! i \<noteq> 0 \<or> astype_int target ! i \<noteq> 0"
  shows "\<exists>r. calc_iou_per_class [logits] [target] = Inr (Fin r) \<and> 0 \<le> r \<and> r \<le> 1
           \<and> (p = astype_int target \<longrightarrow> r = 1)
           \<and> ((\<forall>i < length p. p ! i = 0 \<or> astype_int target ! i = 0) \<longrightarrow> r = 0)"
proof -
  define t where "t = astype_int target"
  define inter where "inter = np_sum (map2 both t p)"
  define un where "un = np_sum (map2 either t p)"
  have lt: "length t = length p"
    using len by (simp add: t_def astype_int_def)
  have le: "inter \<le> un"
    unfolding inter_def un_def by (rule np_sum_map2_mono) (simp add: both_def either_def)
  from union obtain i where i: "i < length p" "p ! i \<noteq> 0 \<or> t ! i \<noteq> 0"
    unfolding t_def by blast
  have "True \<in> set (map2 either t p)"
    using i lt by (force simp: in_set_conv_nth either_def truthy_def)
  then have pos: "0 < un"
    unfolding un_def by (rule np_sum_pos)
  have val: "calc_iou_per_class [logits] [target] = Inr (Fin (real inter / real un))"
    using pos lt
    by (simp add: calc_iou_per_class_def example_iou_def then_do_def pred np_logical_and_def
        np_logical_or_def np_broadcast2_def np_true_divide_def np_mean_def Let_def
        t_def [symmetric] inter_def [symmetric] un_def [symmetric])
  have eq: "inter = un" if "p = t"
    using that unfolding inter_def un_def by (simp add: map2_same both_either_same)
  have dis: "inter = 0" if "\<forall>i < length p. p ! i = 0 \<or> t ! i = 0"
  proof -
    have "True \<notin> set (map2 both t p)"
    proof
      assume "True \<in> set (map2 both t p)"
      then obtain j where j: "j < length p" "both (t ! j) (p ! j)"
        using lt by (auto simp: in_set_conv_nth)
      with that show False
        by (auto simp: both_def truthy_def)
    qed
    then show ?thesis unfolding inter_def by (rule np_sum_zero)
  qed
  have r1: "real inter / real un \<le> 1"
    using le pos by simp
  show ?thesis
    using val r1 pos eq dis unfolding t_def [symmetric]
    by (intro exI [of _ "real inter / real un"]) auto
qed

theorem calc_iou_per_class_range_witness:
  "(\<exists>r. calc_iou_per_class [[[0, 1], [1, 0], [0, 1]]] [[1, 0, 1]] = Inr (Fin r) \<and> r = 1)
   \<and> (\<exists>r. calc_iou_per_class [[[0, 1], [1, 0], [1, 0]]] [[0, 0, 1]] = Inr (Fin r) \<and> r = 0)"
proof -
  have p1: "np_argmax0 [[0, 1], [1, 0], [0, 1]] = Inr [1, 0, 1]"
    by (simp add: then_do_def np_argmax_def)
  have p2: "np_argmax0 [[0, 1], [1, 0], [1, 0]] = Inr [1, 0, 0]"
    by (simp add: then_do_def np_argmax_def)
  have a1: "astype_int [1, 0, 1] = [1, 0, 1]" and a2: "astype_int [0, 0, 1] = [0, 0, 1]"
    by (simp_all add: astype_int_def)
  have u1: "\<exists>i < length [1, 0, 1::int]. [1, 0, 1::int] ! i \<noteq> 0 \<or> astype_int [1, 0, 1] ! i \<noteq> 0"
    by (rule exI [of _ 0]) simp
  have u2: "\<exists>i < length [1, 0, 0::int]. [1, 0, 0::int] ! i \<noteq> 0 \<or> astype_int [0, 0, 1] ! i \<noteq> 0"
    by (rule exI [of _ 0]) simp
  have d2: "\<forall>i < length [1, 0, 0::int]. [1, 0, 0::int] ! i = 0 \<or> astype_int [0, 0, 1] ! i = 0"
    by (simp add: a2 less_Suc_eq nth_Cons')
  from calc_iou_per_class_range [OF p1 _ u1] a1
  have w1: "\<exists>r. calc_iou_per_class [[[0, 1], [1, 0], [0, 1]]] [[1, 0, 1]] = Inr (Fin r) \<and> r = 1"
    by auto
  from calc_iou_per_class_range [OF p2 _ u2] d2
  have w2: "\<exists>r. calc_iou_per_class [[[0, 1], [1, 0], [1, 0]]] [[0, 0, 1]] = Inr (Fin r) \<and> r = 0"
    by auto
  from w1 w2 show ?thesis by blast
qed

section \<open>Properties of save_model\<close>

lemma py_print_frame [simp]:
  "files (py_print l w) = files w" "stdin (py_print l w) = stdin w"
  by (simp_all add: py_print_def)

lemma save_model_loop_unrecognised:
  assumes "trials < 3" "prompt_deletion (experiment_cfg cfg)" "stdin w = a # rest"
    and "a \<notin> set positive_options" "a \<notin> set negative_options"
  shows "\<exists>w'. files w' = files w \<and> stdin w' = rest \<and>
           save_model_loop cfg ep d trials w =
             (if Suc trials = 3
              then (Inl (ValueError ''Supply the correct answer to the question''), w')
              else save_model_loop cfg ep d (Suc trials) w')"
proof -
  define w' where "w' =
     py_print (''You have '' @ py_str_int (3 - int (trials + 1)) @ '' left'')
       (py_print ''Wrong Value Supplied''
         ((py_print ''Type Yes or y to confirm deletion else No or n''
            (py_print (''Are you sure you want to delete checkpoint: '' @ py_str_int ep) w))
          \<lparr>stdin := rest\<rparr>))"
  have frame: "files w' = files w" "stdin w' = rest"
    by (simp_all add: w'_def)
  have "save_model_loop cfg ep d trials w =
          (if Suc trials = 3
           then (Inl (ValueError ''Supply the correct answer to the question''), w')
           else save_model_loop cfg ep d (Suc trials) w')"
    unfolding save_model_loop.simps [of cfg ep d trials w]
    using assms by (simp add: py_input_def Let_def w'_def)
  with frame show ?thesis by blast
qed

text \<open>
  C6. When a checkpoint exists at the path of the episode, \<open>prompt_deletion\<close> is set and
  the next three lines read are neither affirmative nor negative, \<open>save_model\<close> raises
  \<open>ValueError\<close> and every file is as it was: the checkpoint is neither removed nor
  rewritten, and nothing is logged. Exactly the three lines have been read.
\<close>

theorem save_model_three_unrecognised:
  assumes exists: "files w (checkpoint_path_of cfg ep) = Some old"
    and prompt: "prompt_deletion (experiment_cfg cfg)"
    and inputs: "stdin w = a # b # c # rest"
    and unrecognised: "\<forall>x \<in> {a, b, c}. x \<notin> set positive_options \<and> x \<notin> set negative_options"
  shows "\<exists>w'. save_model cfg ep d w =
             (Inl (ValueError ''Supply the correct answer to the question''), w')
           \<and> files w' = files w \<and> stdin w' = rest"
proof -
  from save_model_loop_unrecognised [of 0 cfg w a "b # c # rest" ep d] prompt inputs unrecognised
  obtain w1 where w1: "files w1 = files w" "stdin w1 = b # c # rest"
    "save_model_loop cfg ep d 0 w = save_model_loop cfg ep d 1 w1"
    by auto
  from save_model_loop_unrecognised [of 1 cfg w1 b "c # rest" ep d] prompt w1 unrecognised
  obtain w2 where w2: "files w2 = files w" "stdin w2 = c # rest"
    "save_model_loop cfg ep d 1 w1 = save_model_loop cfg ep d 2 w2"
    by (auto simp: numeral_2_eq_2)
  from save_model_loop_unrecognised [of 2 cfg w2 c rest ep d] prompt w2 unrecognised
  obtain w3 where w3: "files w3 = files w" "stdin w3 = rest"
    "save_model_loop cfg ep d 2 w2 =
       (Inl (ValueError ''Supply the correct answer to the question''), w3)"
    by (auto simp: numeral_3_eq_3 numeral_2_eq_2)
  have "save_model cfg ep d w = save_model_loop cfg ep d 0 w"
    using exists by (simp add: save_model_def os_path_exists_def)
  with w1 w2 w3 show ?thesis by simp
qed

theorem save_model_three_unrecognised_witness:
  "\<exists>w'. save_model cfg0 5 ''new'' world0 =
             (Inl (ValueError ''Supply the correct answer to the question''), w')
           \<and> files w' ''data/models/experiment_1/checkpoint_5.pth.tar'' = Some ''old''
           \<and> stdin w' = [''yes'']"
proof -
  have p: "checkpoint_path_of cfg0 5 = ''data/models/experiment_1/checkpoint_5.pth.tar''"
    by (simp add: checkpoint_path_of_def checkpoint_name_def model_dir_of_def os_path_join_def os_path_join2_def
        py_str_int_def nat_digits.simps digit_char_def cfg0_def)
  have e: "files world0 (checkpoint_path_of cfg0 5) = Some ''old''"
    by (simp add: p world0_def)
  have q: "prompt_deletion (experiment_cfg cfg0)"
    by (simp add: cfg0_def)
  have i: "stdin world0 = ''maybe'' # ''Y'' # ''nope'' # [''yes'']"
    by (simp add: world0_def)
  have u: "\<forall>x \<in> {''maybe'', ''Y'', ''nope''}.
             x \<notin> set positive_options \<and> x \<notin> set negative_options"
    by (simp add: positive_options_def negative_options_def)
  from save_model_three_unrecognised [OF e q i u, of "''new''"] show ?thesis
    by (auto simp: world0_def)
qed

section \<open>Properties of load_model\<close>

text \<open>
  C7. A directory that holds the checkpoints of the episodes 9 and 12, listed before its log
  file. \<open>load_model\<close> of model.py parses the whole episode number and selects 12;
  \<open>load_model\<close> of utils.py reads the one character at index 11 of each name, so 12
  counts as 1 and it selects 9. With the second log file in the listing it raises.
\<close>

theorem load_model_latest_multi_digit:
  "utils_load_model cfg0 [''checkpoint_9.pth.tar'', ''checkpoint_12.pth.tar'', ''model_log.txt'']
     = Inr (9, ''data/models/experiment_1/checkpoint_9.pth.tar'')
   \<and> model_load_model cfg0 [''checkpoint_9.pth.tar'', ''checkpoint_12.pth.tar'', ''model_log.txt'']
     = Inr (12, ''data/models/experiment_1/checkpoint_12.pth.tar'')
   \<and> utils_load_model cfg0
       [''checkpoint_9.pth.tar'', ''checkpoint_12.pth.tar'', ''model_log.txt'', ''val_stats_log.txt'']
     = Inl (ValueError ''invalid literal for int() with base 10'')"
proof -
  have u: "utils_load_model cfg0
             [''checkpoint_9.pth.tar'', ''checkpoint_12.pth.tar'', ''model_log.txt'']
           = Inr (9, ''data/models/experiment_1/checkpoint_9.pth.tar'')"
    by (simp add: utils_load_model_def cfg0_def then_do_def py_pop_def py_int_def py_strip_def
        py_isspace_def digit_val_def py_max_def checkpoint_path_of_def checkpoint_name_def model_dir_of_def
        os_path_join_def os_path_join2_def py_str_int_def nat_digits.simps digit_char_def Let_def
        eval_nat_numeral)
  have m: "model_load_model cfg0
             [''checkpoint_9.pth.tar'', ''checkpoint_12.pth.tar'', ''model_log.txt'']
           = Inr (12, ''data/models/experiment_1/checkpoint_12.pth.tar'')"
    by (simp add: model_load_model_def cfg0_def then_do_def splitext_ext_def py_int_def
        py_strip_def py_isspace_def digit_val_def py_max_def checkpoint_path_of_def
        checkpoint_name_def model_dir_of_def os_path_join_def os_path_join2_def py_str_int_def nat_digits.simps digit_char_def Let_def)
  have l: "utils_load_model cfg0
             [''checkpoint_9.pth.tar'', ''checkpoint_12.pth.tar'', ''model_log.txt'',
              ''val_stats_log.txt'']
           = Inl (ValueError ''invalid literal for int() with base 10'')"
    by (simp add: utils_load_model_def then_do_def py_pop_def py_int_def py_strip_def
        py_isspace_def digit_val_def Let_def eval_nat_numeral)
  from u m l show ?thesis by blast
qed

section \<open>Properties of the routines of LEO\<close>

lemma py_range_nonpos: "n \<le> 0 \<Longrightarrow> py_range n = []"
  by (simp add: py_range_def)

lemma py_range_pos: "0 < n \<Longrightarrow> py_range n = 0 # [1 ..< nat n]"
  by (simp add: py_range_def upt_conv_Cons)

lemma map_err_total:
  "(\<And>x. x \<in> set xs \<Longrightarrow> f x = Inr (g x)) \<Longrightarrow> map_err f xs = Inr (map g xs)"
  by (induction xs) (simp_all add: then_do_def)

lemma py_index_nth: "i < length xs \<Longrightarrow> py_index xs i = Inr (xs ! i)"
  by (induction xs i rule: py_index.induct) simp_all

text \<open>
  C9. \<open>forward_segnetwork\<close> reads the name \<open>bias\<close>, which neither the function nor the
  module binds: every call raises \<open>NameError\<close>, whatever the features, the image and the
  weight, and no logits are returned.
\<close>

theorem forward_segnetwork_name_error:
  "forward_segnetwork T self decoder_out x weight = Inl (NameError ''bias'')"
  by (simp add: forward_segnetwork_def load_global_def model_py_globals_def then_do_def)

text \<open>
  The other forward functions raise on every call too: \<open>forward_encoder\<close> when it reads
  \<open>requires_grad\<close> of a list, \<open>forward_decoder\<close> when it calls the decoder with one
  argument, and \<open>forward\<close> through \<open>forward_encoder\<close>.
\<close>

lemma forward_encoder_raises:
  "forward_encoder T self x = Inl (AttributeError ''requires_grad'')"
  by (simp add: forward_encoder_def list_getattr_def py_list_attributes_def then_do_def Let_def)

lemma forward_decoder_raises:
  "forward_decoder T self encoder_outputs
     = Inl (TypeError ''missing required positional argument'')"
  by (simp add: forward_decoder_def py_bind_positional_def then_do_def)

lemma forward_raises:
  "forward T self x latents = Inl (AttributeError ''requires_grad'')"
  by (simp add: forward_def forward_encoder_raises then_do_def)

text \<open>
  C3. \<open>leo_inner_loop\<close> is no attribute of a \<open>LEO\<close> object, and no name of the module:
  its \<open>def\<close> is dead code in the body of \<open>forward\<close>. The call
  \<open>self.leo_inner_loop(x, y)\<close> raises \<open>AttributeError\<close>, for every number of adaptation
  steps, and returns no gradient.
\<close>

theorem leo_inner_loop_not_an_attribute:
  "leo_getattr ''leo_inner_loop'' = Inl (AttributeError ''leo_inner_loop'')
   \<and> load_global ''leo_inner_loop'' = Inl (NameError ''leo_inner_loop'')"
  by (simp add: leo_getattr_def leo_class_namespace_def load_global_def model_py_globals_def)

text \<open>
  The first of the three lines is a logical line of its own, as no bracket is open at its
  end, and it ends in \<open>torch.autograd.\<close>: the statement does not compile.
\<close>

lemma lines_213_215_syntax_error:
  "py_compile_statement lines_213_215 = Inl (SyntaxError ''invalid syntax'')"
  by (simp add: py_compile_statement_def lines_213_215_def ends_in_attribute_dot_def
      py_isspace_def is_name_char_def is_name_start_def Let_def)

text \<open>
  C10. \<open>finetuning_inner_loop\<close> as the source has it does not compile: for every
  configuration, so also when \<open>num_finetuning_steps \<le> 1\<close>, and in every mode, no call
  returns \<open>None\<close> or anything else.
\<close>

theorem finetuning_inner_loop_does_not_compile:
  "finetuning_inner_loop T cfg self data_dict tr_features g transformers mode
     = Inl (SyntaxError ''invalid syntax'', [])"
  by (simp add: finetuning_inner_loop_def lines_213_215_syntax_error try_with_def)

text \<open>
  With lines 213 to 215 read as one call, the routine does return \<open>None\<close> when
  \<open>num_finetuning_steps \<le> 1\<close>: its loop has no iteration.
\<close>

lemma finetuning_inner_loop_joined_none:
  "num_finetuning_steps (hyperparameters cfg) \<le> 1 \<Longrightarrow>
   finetuning_inner_loop_joined T cfg self data_dict tr_features g transformers mode
     = Inr (PyNone, [])"
  by (simp add: finetuning_inner_loop_joined_def py_range_nonpos Let_def split: prod.splits)

lemma with_finetuning_steps_simps [simp]:
  "num_finetuning_steps (hyperparameters (with_finetuning_steps cfg n)) = n"
  "finetuning_lr (hyperparameters (with_finetuning_steps cfg n)) = finetuning_lr (hyperparameters cfg)"
  by (simp_all add: with_finetuning_steps_def)

lemma finetuning_inner_loop_body_raises:
  "\<exists>e. finetuning_inner_loop_body T self lr data_dict tr_features mode i (weight, events)
         = Inl (e, events)"
  by (cases "edict_getattr data_dict ''tr_imgs''")
     (simp_all add: finetuning_inner_loop_body_def try_with_def forward_segnetwork_def
        load_global_def model_py_globals_def then_do_def)

text \<open>
  C5. For every number of finetuning steps from 2 on, the routine in mode \<open>meta_train\<close>
  returns no 4-tuple. As the source has it, it does not compile. With lines 213 to 215
  read as one call, it raises in the first statement of the first iteration of its loop,
  at the call of \<open>forward_segnetwork\<close> (or before, when \<open>data_dict\<close> has no
  \<open>tr_imgs\<close>), with no descent step and no validation.
\<close>

theorem finetuning_inner_loop_meta_train_raises:
  "finetuning_inner_loop T (with_finetuning_steps cfg (2 + int k)) self data_dict
     tr_features g transformers ''meta_train''
     = Inl (SyntaxError ''invalid syntax'', [])
   \<and> (\<exists>e. finetuning_inner_loop_joined T (with_finetuning_steps cfg (2 + int k)) self data_dict
             tr_features g transformers ''meta_train''
           = Inl (e, []))"
proof -
  have r: "py_range (1 + int k) = 0 # [1 ..< nat (1 + int k)]"
    by (intro py_range_pos) simp
  obtain e where
    "finetuning_inner_loop_body T self (finetuning_lr (hyperparameters cfg)) data_dict
       tr_features ''meta_train'' 0
       (seg_weight self - finetuning_lr (hyperparameters cfg) *\<^sub>R g, []) = Inl (e, [])"
    using finetuning_inner_loop_body_raises by blast
  then have "\<exists>e. finetuning_inner_loop_joined T (with_finetuning_steps cfg (2 + int k)) self
                 data_dict tr_features g transformers ''meta_train''
               = Inl (e, [])"
    by (simp add: finetuning_inner_loop_joined_def r Let_def split: prod.splits)
  then show ?thesis
    by (simp add: finetuning_inner_loop_def lines_213_215_syntax_error try_with_def)
qed

text \<open>
  C4. For a \<open>data_dict\<close> with the four attributes and \<open>num_finetuning_steps = 2 + k\<close>,
  where \<open>1 + k\<close> descent steps are claimed, the routine makes no descent step in any
  mode. As the source has it, it does not compile. With lines 213 to 215 read as one
  call, the call of \<open>forward_segnetwork\<close> that computes the training loss of the first
  step raises \<open>NameError\<close>.
\<close>

theorem finetuning_inner_loop_no_descent:
  "finetuning_inner_loop T (with_finetuning_steps cfg (2 + int k)) self
     (task_dict a b c d) tr_features g transformers mode
     = Inl (SyntaxError ''invalid syntax'', [])
   \<and> finetuning_inner_loop_joined T (with_finetuning_steps cfg (2 + int k)) self
       (task_dict a b c d) tr_features g transformers mode
     = Inl (NameError ''bias'', [])"
proof -
  have r: "py_range (1 + int k) = 0 # [1 ..< nat (1 + int k)]"
    by (intro py_range_pos) simp
  have "finetuning_inner_loop_body T self lr (task_dict a b c d) tr_features mode 0 (w, [])
          = Inl (NameError ''bias'', [])" for lr w
    by (simp add: finetuning_inner_loop_body_def try_with_def forward_segnetwork_def
        load_global_def model_py_globals_def then_do_def edict_getattr_def task_dict_def)
  then have "finetuning_inner_loop_joined T (with_finetuning_steps cfg (2 + int k)) self
               (task_dict a b c d) tr_features g transformers mode
             = Inl (NameError ''bias'', [])"
    by (simp add: finetuning_inner_loop_joined_def r Let_def split: prod.splits)
  then show ?thesis
    by (simp add: finetuning_inner_loop_def lines_213_215_syntax_error try_with_def)
qed

lemma compute_loss_body_raises:
  "\<exists>e. compute_loss_body T cfg metadata transformers mode num_tasks batch
          (self, total_grads, total_val_loss, mean_iou_dict, events)
        = Inl (e, self, events)"
  by (cases "get_named_dict T metadata batch")
     (simp_all add: compute_loss_body_def try_with_def leo_getattr_def leo_class_namespace_def
        split: prod.splits)

lemma py_for_compute_loss_raises:
  assumes "bs \<noteq> []"
  shows "\<exists>e. py_for bs (compute_loss_body T cfg metadata transformers mode num_tasks)
               (self, total_grads, total_val_loss, mean_iou_dict, events)
             = Inl (e, self, events)"
proof -
  from assms obtain b bs' where bs: "bs = b # bs'"
    by (cases bs) auto
  obtain e where
    "compute_loss_body T cfg metadata transformers mode num_tasks b
       (self, total_grads, total_val_loss, mean_iou_dict, events) = Inl (e, self, events)"
    using compute_loss_body_raises by blast
  then show ?thesis
    by (simp add: bs)
qed

lemma upt_nonempty: "xs \<noteq> [] \<Longrightarrow> [0 ..< length xs] \<noteq> []"
  by simp

text \<open>
  C1. No call of \<open>compute_loss\<close> applies an update: every call raises and leaves the
  \<open>LEO\<close> object as it was, both optimizers unstepped. On a batch whose first task is
  there, it raises at \<open>self.leo_inner_loop\<close> for that task (or before the loop, when
  \<open>display_stats_interval\<close> is 0); on an empty batch, at the division by the number of
  losses.
\<close>

theorem compute_loss_applies_no_update:
  "(\<exists>e. compute_loss T cfg self metadata stats transformers mode = Inl (e, self, []))
   \<and> compute_loss T cfg self (t # ts, m # ms, v # vs, w # ws, classes) stats transformers mode
       = Inl (if display_stats_interval cfg = 0 then ZeroDivisionError
              else AttributeError ''leo_inner_loop'', self, [])"
proof -
  obtain tr_data tr_data_masks val_data vm cs where
    md: "metadata = (tr_data, tr_data_masks, val_data, vm, cs)"
    by (cases metadata) auto
  have general: "\<exists>e. compute_loss T cfg self metadata stats transformers mode = Inl (e, self, [])"
  proof (cases "tr_data = []")
    case True
    then show ?thesis
      by (simp add: compute_loss_def md)
  next
    case False
    from py_for_compute_loss_raises [OF upt_nonempty [OF False]]
    obtain e where
      "py_for [0 ..< length tr_data]
         (compute_loss_body T cfg metadata transformers mode (length tr_data))
         (self, None, [], Map.empty, []) = Inl (e, self, [])"
      by blast
    then show ?thesis
      by (simp add: compute_loss_def md Let_def)
  qed
  have body: "compute_loss_body T cfg (t # ts, m # ms, v # vs, w # ws, classes) transformers
                mode n 0 (self, None, [], Map.empty, [])
              = Inl (AttributeError ''leo_inner_loop'', self, [])" for n
    by (simp add: compute_loss_body_def get_named_dict_def then_do_def try_with_def
        leo_getattr_def leo_class_namespace_def)
  have range: "[0 ..< Suc (length ts)] = 0 # [1 ..< Suc (length ts)]"
    by (simp add: upt_conv_Cons del: upt_Suc)
  have first: "compute_loss T cfg self (t # ts, m # ms, v # vs, w # ws, classes) stats
                 transformers mode
               = Inl (if display_stats_interval cfg = 0 then ZeroDivisionError
                      else AttributeError ''leo_inner_loop'', self, [])"
    by (simp add: compute_loss_def Let_def range body del: upt_Suc)
  from general first show ?thesis by blast
qed

text \<open>
  The statements that accumulate the gradients (lines 263 to 271), for the first task of
  a batch and for a later one.
\<close>

lemma accumulate_grads_first:
  "accumulate_grads n None (Some g) (Some gs)
     = Inr (Some (map (\<lambda>d. d /\<^sub>R real n) gs), Some (g /\<^sub>R real n))"
  by (simp add: accumulate_grads_def)

lemma accumulate_grads_next:
  assumes "length gs \<le> length tgs"
  shows "accumulate_grads n (Some tgs) (Some g) (Some gs)
     = Inr (Some (map (\<lambda>i. tgs ! i + gs ! i /\<^sub>R real n) [0 ..< length gs]),
            Some (g + g /\<^sub>R real n))"
proof -
  have "map_err (\<lambda>i. then_do (py_index tgs i) (\<lambda>a.
                       then_do (py_index (map (\<lambda>d. d /\<^sub>R real n) gs) i) (\<lambda>b. Inr (a + b))))
          [0 ..< length gs]
        = Inr (map (\<lambda>i. tgs ! i + gs ! i /\<^sub>R real n) [0 ..< length gs])"
    using assms by (intro map_err_total) (simp add: py_index_nth then_do_def)
  then show ?thesis
    by (simp add: accumulate_grads_def then_do_def)
qed

text \<open>
  C2. On a batch of two tasks \<open>compute_loss\<close> raises at \<open>self.leo_inner_loop\<close> for the
  first task: no gradient is accumulated and no \<open>.grad\<close> slot assigned. The accumulating
  statements themselves, run for two tasks with the same head gradient and decoder
  gradient \<open>g\<close>, give \<open>g\<close> for the decoder and \<open>g + g / 2\<close> for the head.
\<close>

theorem compute_loss_two_tasks_no_gradient:
  "compute_loss T cfg0 self (two_tasks a b) stats transformers ''meta_train''
     = Inl (AttributeError ''leo_inner_loop'', self, [])
   \<and> accumulate_grads 2 None (Some g) (Some [g]) = Inr (Some [g /\<^sub>R 2], Some (g /\<^sub>R 2))
   \<and> accumulate_grads 2 (Some [g /\<^sub>R 2]) (Some g) (Some [g])
       = Inr (Some [g], Some (g + g /\<^sub>R 2))"
proof -
  have c: "compute_loss T cfg0 self (two_tasks a b) stats transformers ''meta_train''
             = Inl (AttributeError ''leo_inner_loop'', self, [])"
    by (simp add: compute_loss_def compute_loss_body_def two_tasks_def cfg0_def
        get_named_dict_def then_do_def try_with_def leo_getattr_def leo_class_namespace_def
        upt_conv_Cons)
  have h: "(1 / 2) *\<^sub>R g + (1 / 2) *\<^sub>R g = g"
    using scaleR_half_double [of g] by (simp add: scaleR_right_distrib)
  have f: "accumulate_grads 2 None (Some g) (Some [g]) = Inr (Some [g /\<^sub>R 2], Some (g /\<^sub>R 2))"
    by (simp add: accumulate_grads_def)
  have n: "accumulate_grads 2 (Some [g /\<^sub>R 2]) (Some g) (Some [g])
             = Inr (Some [g], Some (g + g /\<^sub>R 2))"
    by (simp add: accumulate_grads_def then_do_def h)
  from c f n show ?thesis by blast
qed

end
